theory Spec2Isabelle
  imports Complex_Main "HOL-Library.AList" "HOL-Library.Sublist"
begin

section \<open>JavaScript values\<close>

text \<open>
  The parser of \<^verbatim>\<open>src/ol/expr/expression.js\<close> consumes arbitrary JavaScript values.
  A number is a finite value, \<^verbatim>\<open>NaN\<close> or one of the two infinities; the parser
  never computes with numbers, it only tests them (\<^verbatim>\<open>typeof\<close>, \<^verbatim>\<open>Number.isNaN\<close>,
  truthiness, \<^verbatim>\<open>b <= 0\<close>) and prints them. A plain object is the list of its own
  enumerable properties in insertion order.
\<close>

datatype jsnum = Finite rat | NaN | PosInfinity | NegInfinity

datatype jsval =
    JUndefined
  | JNull
  | JBool bool
  | JNum jsnum
  | JStr string
  | JArr "jsval list"
  | JObj "(string \<times> jsval) list"

text \<open>
  A thrown \<^verbatim>\<open>new Error(msg)\<close> is \<open>Error msg\<close>; a run-time \<^verbatim>\<open>TypeError\<close> of the
  engine (reading a property of \<^verbatim>\<open>null\<close> or \<^verbatim>\<open>undefined\<close>, spreading
  \<^verbatim>\<open>undefined\<close>) is \<open>TypeError msg\<close>, and \<^verbatim>\<open>new Array(n)\<close> with a negative
  \<open>n\<close> is \<open>RangeError msg\<close>; the texts of these two are the engine's.
\<close>

datatype error = Error string | TypeError string | RangeError string

fun message :: "error \<Rightarrow> string" where
  "message (Error m) = m"
| "message (TypeError m) = m"
| "message (RangeError m) = m"

text \<open>
  What the module imports or inherits from the engine and is not under \<^verbatim>\<open>src/\<close>:
  the decimal form of a finite number (\<^verbatim>\<open>Number.prototype.toString\<close>), the numeric
  value of a string (\<^verbatim>\<open>Number(s)\<close>) and \<^verbatim>\<open>fromString\<close> of \<^verbatim>\<open>ol/color.js\<close>, which
  returns an array or throws. They are parameters of the model.
\<close>

record Prims =
  numberToString :: "rat \<Rightarrow> string"
  stringToNumber :: "string \<Rightarrow> jsnum"
  colorFromString :: "string \<Rightarrow> error + jsval"

text \<open>Modelled from the spec: \<^verbatim>\<open>toSize\<close> of \<^verbatim>\<open>ol/size.js\<close>, the size normalizer
  that expands a scalar \<open>n\<close> to the pair \<open>[n, n]\<close>.\<close>

definition toSize :: "jsval \<Rightarrow> jsval" where
  "toSize n = JArr [n, n]"

subsection \<open>Printing\<close>

function natToString :: "nat \<Rightarrow> string" where
  "natToString n =
     (if n < 10 then [''0123456789'' ! n]
      else natToString (n div 10) @ [''0123456789'' ! (n mod 10)])"
  by pat_completeness auto
termination
  by (relation "measure id") auto

declare natToString.simps [simp del]

fun joinWith :: "string \<Rightarrow> string list \<Rightarrow> string" where
  "joinWith sep [] = []"
| "joinWith sep [x] = x"
| "joinWith sep (x # y # ys) = x @ sep @ joinWith sep (y # ys)"

fun numString :: "Prims \<Rightarrow> jsnum \<Rightarrow> string" where
  "numString P (Finite r) = numberToString P r"
| "numString P NaN = ''NaN''"
| "numString P PosInfinity = ''Infinity''"
| "numString P NegInfinity = ''-Infinity''"

text \<open>\<^verbatim>\<open>String(v)\<close>, which is also what a template literal and \<^verbatim>\<open>Array.prototype.join\<close>
  apply; \<^verbatim>\<open>join\<close> prints \<^verbatim>\<open>null\<close> and \<^verbatim>\<open>undefined\<close> items as the empty string.\<close>

fun jsString :: "Prims \<Rightarrow> jsval \<Rightarrow> string" where
  "jsString P JUndefined = ''undefined''"
| "jsString P JNull = ''null''"
| "jsString P (JBool b) = (if b then ''true'' else ''false'')"
| "jsString P (JNum n) = numString P n"
| "jsString P (JStr s) = s"
| "jsString P (JArr xs) =
     joinWith '',''
       (map (\<lambda>x. case x of JUndefined \<Rightarrow> [] | JNull \<Rightarrow> [] | _ \<Rightarrow> jsString P x) xs)"
| "jsString P (JObj kvs) = ''[object Object]''"

definition join :: "Prims \<Rightarrow> jsval list \<Rightarrow> string \<Rightarrow> string" where
  "join P xs sep =
     joinWith sep
       (map (\<lambda>x. case x of JUndefined \<Rightarrow> [] | JNull \<Rightarrow> [] | _ \<Rightarrow> jsString P x) xs)"

text \<open>\<^verbatim>\<open>JSON.stringify\<close>: the quoting of a string, then the serialization of a value
  (\<open>None\<close> is \<^verbatim>\<open>undefined\<close>). Non-finite numbers print as \<^verbatim>\<open>null\<close>; an
  \<^verbatim>\<open>undefined\<close> item of an array prints as \<^verbatim>\<open>null\<close> and an \<^verbatim>\<open>undefined\<close>
  property of an object is left out.\<close>

definition hexDigit :: "nat \<Rightarrow> char" where
  "hexDigit n = ''0123456789abcdef'' ! n"

definition quoteChar :: "char \<Rightarrow> string" where
  "quoteChar c =
     (if c = CHR 0x22 then [CHR 0x5C, CHR 0x22]
      else if c = CHR 0x5C then [CHR 0x5C, CHR 0x5C]
      else if c = CHR 0x08 then [CHR 0x5C, CHR ''b'']
      else if c = CHR 0x09 then [CHR 0x5C, CHR ''t'']
      else if c = CHR 0x0A then [CHR 0x5C, CHR ''n'']
      else if c = CHR 0x0C then [CHR 0x5C, CHR ''f'']
      else if c = CHR 0x0D then [CHR 0x5C, CHR ''r'']
      else if (of_char c :: nat) < 32
        then [CHR 0x5C, CHR ''u'', CHR ''0'', CHR ''0'',
              hexDigit (of_char c div 16), hexDigit (of_char c mod 16)]
      else [c])"

definition quoteJSONString :: "string \<Rightarrow> string" where
  "quoteJSONString s = [CHR 0x22] @ concat (map quoteChar s) @ [CHR 0x22]"

fun jsonNum :: "Prims \<Rightarrow> jsnum \<Rightarrow> string" where
  "jsonNum P (Finite r) = numberToString P r"
| "jsonNum P NaN = ''null''"
| "jsonNum P PosInfinity = ''null''"
| "jsonNum P NegInfinity = ''null''"

fun jsonStringify :: "Prims \<Rightarrow> jsval \<Rightarrow> string option" where
  "jsonStringify P JUndefined = None"
| "jsonStringify P JNull = Some ''null''"
| "jsonStringify P (JBool b) = Some (if b then ''true'' else ''false'')"
| "jsonStringify P (JNum n) = Some (jsonNum P n)"
| "jsonStringify P (JStr s) = Some (quoteJSONString s)"
| "jsonStringify P (JArr xs) =
     Some (''['' @
       joinWith '',''
         (map (\<lambda>x. case jsonStringify P x of None \<Rightarrow> ''null'' | Some s \<Rightarrow> s) xs)
       @ '']'')"
| "jsonStringify P (JObj kvs) =
     Some (''{'' @
       joinWith '',''
         (concat (map (\<lambda>(k, v). case jsonStringify P v of
                                   None \<Rightarrow> []
                                 | Some s \<Rightarrow> [quoteJSONString k @ '':'' @ s]) kvs))
       @ ''}'')"

text \<open>The text a template literal shows for \<^verbatim>\<open>JSON.stringify(v)\<close>.\<close>

definition jsonText :: "Prims \<Rightarrow> jsval \<Rightarrow> string" where
  "jsonText P v = (case jsonStringify P v of None \<Rightarrow> ''undefined'' | Some s \<Rightarrow> s)"

subsection \<open>Tests and conversions\<close>

fun isNumber :: "jsval \<Rightarrow> bool" where
  "isNumber (JNum n) = True"
| "isNumber v = False"

fun isString :: "jsval \<Rightarrow> bool" where
  "isString (JStr s) = True"
| "isString v = False"

fun isArray :: "jsval \<Rightarrow> bool" where
  "isArray (JArr xs) = True"
| "isArray v = False"

text \<open>\<^verbatim>\<open>Boolean(v)\<close>: the falsy values are \<^verbatim>\<open>undefined\<close>, \<^verbatim>\<open>null\<close>, \<^verbatim>\<open>false\<close>,
  zero, \<^verbatim>\<open>NaN\<close> and the empty string.\<close>

fun toBoolean :: "jsval \<Rightarrow> bool" where
  "toBoolean JUndefined = False"
| "toBoolean JNull = False"
| "toBoolean (JBool b) = b"
| "toBoolean (JNum (Finite r)) = (r \<noteq> 0)"
| "toBoolean (JNum NaN) = False"
| "toBoolean (JNum n) = True"
| "toBoolean (JStr s) = (s \<noteq> [])"
| "toBoolean v = True"

text \<open>\<^verbatim>\<open>Number(v)\<close>: an array or object is first turned into its string.\<close>

fun toNumber :: "Prims \<Rightarrow> jsval \<Rightarrow> jsnum" where
  "toNumber P JUndefined = NaN"
| "toNumber P JNull = Finite 0"
| "toNumber P (JBool b) = (if b then Finite 1 else Finite 0)"
| "toNumber P (JNum n) = n"
| "toNumber P (JStr s) = stringToNumber P s"
| "toNumber P v = stringToNumber P (jsString P v)"

text \<open>\<^verbatim>\<open>typeof v === 'object'\<close>\<close>

fun typeofObject :: "jsval \<Rightarrow> bool" where
  "typeofObject JNull = True"
| "typeofObject (JArr xs) = True"
| "typeofObject (JObj kvs) = True"
| "typeofObject v = False"

text \<open>\<^verbatim>\<open>k in o\<close> and \<^verbatim>\<open>o.k\<close> for a plain object \<open>o\<close> and a name \<open>k\<close> that
  \<^verbatim>\<open>Object.prototype\<close> does not have.\<close>

fun hasProp :: "string \<Rightarrow> jsval \<Rightarrow> bool" where
  "hasProp k (JObj kvs) = (k \<in> fst ` set kvs)"
| "hasProp k v = False"

fun getProp :: "jsval \<Rightarrow> string \<Rightarrow> jsval" where
  "getProp (JObj kvs) k = (case map_of kvs k of None \<Rightarrow> JUndefined | Some v \<Rightarrow> v)"
| "getProp v k = JUndefined"

text \<open>\<^verbatim>\<open>xs[i]\<close> on an array: \<^verbatim>\<open>undefined\<close> out of range.\<close>

definition elemAt :: "jsval list \<Rightarrow> nat \<Rightarrow> jsval" where
  "elemAt xs i = (if i < length xs then xs ! i else JUndefined)"

section \<open>Expressions and the parsing context\<close>

type_synonym Type = string

definition BooleanType :: Type where "BooleanType = ''boolean''"
definition NumberType :: Type where "NumberType = ''number''"
definition StringType :: Type where "StringType = ''string''"
definition ColorType :: Type where "ColorType = ''color''"
definition NumberArrayType :: Type where "NumberArrayType = ''number[]''"
definition SizeType :: Type where "SizeType = ''size''"

lemmas Type_defs =
  BooleanType_def NumberType_def StringType_def ColorType_def NumberArrayType_def SizeType_def

datatype Expression =
    LiteralExpression Type jsval
  | CallExpression Type string "Expression list"

fun type_of :: "Expression \<Rightarrow> Type" where
  "type_of (LiteralExpression t v) = t"
| "type_of (CallExpression t operator as) = t"


fun isLiteral :: "Expression \<Rightarrow> bool" where
  "isLiteral (LiteralExpression t v) = True"
| "isLiteral (CallExpression t operator as) = False"

record PreAccessorInfo =
  slug :: string
  path :: "jsval list"
  type :: Type
  default :: "jsval option"

record ParsingContext =
  variables :: "(string \<times> PreAccessorInfo) list"
  properties :: "(string \<times> PreAccessorInfo) list"
  featureId :: bool
  geometryType :: bool

definition newParsingContext :: ParsingContext where
  "newParsingContext =
     \<lparr>variables = [], properties = [], featureId = False, geometryType = False\<rparr>"

text \<open>\<^verbatim>\<open>keyForAccessor\<close>: the options are a plain object.\<close>

definition keyForAccessor :: "Prims \<Rightarrow> jsval list \<Rightarrow> Type \<Rightarrow> jsval \<Rightarrow> string" where
  "keyForAccessor P pth ty options =
     jsonText P (JObj ([(''path'', JArr pth), (''type'', JStr ty)] @
       (if hasProp ''default'' options then [(''default'', getProp options ''default'')] else [])))"

section \<open>Literal coercion\<close>

definition allNumbers :: "jsval list \<Rightarrow> bool" where
  "allNumbers xs = list_all isNumber xs"

definition parseLiteralExpression :: "Prims \<Rightarrow> jsval \<Rightarrow> Type \<Rightarrow> error + Expression" where
  "parseLiteralExpression P encoded expectedType =
     (if expectedType = BooleanType then
        (case encoded of
           JBool b \<Rightarrow> Inr (LiteralExpression BooleanType encoded)
         | _ \<Rightarrow> Inr (LiteralExpression BooleanType (JBool (toBoolean encoded))))
      else if expectedType = StringType then
        (case encoded of
           JStr s \<Rightarrow> Inr (LiteralExpression StringType encoded)
         | _ \<Rightarrow> Inr (LiteralExpression StringType (JStr (jsString P encoded))))
      else if expectedType = NumberType then
        (case encoded of
           JNum n \<Rightarrow> Inr (LiteralExpression NumberType encoded)
         | _ \<Rightarrow>
           (if toNumber P encoded = NaN then Inl (Error ''expected a number'')
            else Inr (LiteralExpression NumberType (JNum (toNumber P encoded)))))
      else if expectedType = NumberArrayType then
        (case encoded of
           JArr xs \<Rightarrow>
             (if \<not> allNumbers xs then Inl (Error ''expected an array of numbers'')
              else Inr (LiteralExpression NumberArrayType encoded))
         | _ \<Rightarrow> Inl (Error ''expected an array of numbers''))
      else if expectedType = ColorType then
        (case encoded of
           JStr s \<Rightarrow>
             (case colorFromString P s of
                Inl e \<Rightarrow> Inl e
              | Inr c \<Rightarrow> Inr (LiteralExpression ColorType c))
         | JArr xs \<Rightarrow>
             (if \<not> allNumbers xs then Inl (Error ''expected an array of numbers'')
              else if length xs = 3
                then Inr (LiteralExpression ColorType (JArr (xs @ [JNum (Finite 1)])))
              else if length xs = 4 then Inr (LiteralExpression ColorType encoded)
              else Inl (Error (''expected an array of 3 or 4 values for a color, got ''
                                @ natToString (length xs))))
         | _ \<Rightarrow> Inl (Error ''expected a string or an array of numbers''))
      else if expectedType = SizeType then
        (case encoded of
           JNum n \<Rightarrow> Inr (LiteralExpression SizeType (toSize encoded))
         | JArr xs \<Rightarrow>
             (if length xs \<noteq> 2
                then Inl (Error (''expected an array of two values for a size, got ''
                                  @ natToString (length xs)))
              else if \<not> allNumbers xs then Inl (Error ''expected an array of numbers'')
              else Inr (LiteralExpression SizeType encoded))
         | _ \<Rightarrow> Inl (Error ''expected a number or an array of numbers''))
      else Inl (Error (''unsupported type: '' @ expectedType)))"


section \<open>The parser\<close>

text \<open>
  A parser or validator receives the context and may change it before it throws, so its
  result is the pair of what it returns or throws and of the context it leaves. The
  validators that parse arguments call \<^verbatim>\<open>parse\<close>; here they take it as the
  parameter \<open>p\<close>, and \<open>parse\<close> below passes itself.
\<close>

type_synonym 'a result = "(error + 'a) \<times> ParsingContext"

type_synonym Parser = "jsval \<Rightarrow> Type \<Rightarrow> ParsingContext \<Rightarrow> Expression result"

type_synonym ArgValidator =
  "jsval list \<Rightarrow> Type \<Rightarrow> ParsingContext \<Rightarrow> Expression list option result"

definition andThen :: "'a result \<Rightarrow> ('a \<Rightarrow> ParsingContext \<Rightarrow> 'b result) \<Rightarrow> 'b result" where
  "andThen r f = (case r of (Inl e, c) \<Rightarrow> (Inl e, c) | (Inr x, c) \<Rightarrow> f x c)"

text \<open>\<^verbatim>\<open>try { ... } catch (err) { throw new Error(prefix + err.message) }\<close>\<close>

definition rethrow :: "string \<Rightarrow> 'a result \<Rightarrow> 'a result" where
  "rethrow pre r =
     (case r of (Inl e, c) \<Rightarrow> (Inl (Error (pre @ message e)), c) | (Inr x, c) \<Rightarrow> (Inr x, c))"

subsection \<open>Accessors\<close>

text \<open>The loop of \<^verbatim>\<open>withAccessorArgs\<close> over the arguments: it returns the path and the
  options, or throws.\<close>

function accessorLoop ::
  "Prims \<Rightarrow> jsval list \<Rightarrow> nat \<Rightarrow> nat \<Rightarrow> jsval list \<Rightarrow> jsval
     \<Rightarrow> error + (jsval list \<times> jsval)" where
  "accessorLoop P encoded argsCount i pth options =
     (if i < argsCount then
        (let key = elemAt encoded (i + 1)
         in if isNumber key \<or> isString key
              then accessorLoop P encoded argsCount (i + 1) (pth @ [key]) options
            else if i < argsCount - 1 \<or> \<not> toBoolean key \<or> isArray key \<or> \<not> typeofObject key
              then Inl (Error (''expected a string key or numeric array index for a get operation, got ''
                                @ jsString P key))
            else accessorLoop P encoded argsCount (i + 1) pth key)
      else Inr (pth, options))"
  by pat_completeness auto
termination
  by (relation "measure (\<lambda>(P, encoded, argsCount, i, pth, options). argsCount - i)") auto

declare accessorLoop.simps [simp del]

text \<open>\<^verbatim>\<open>infoLookup[key] = info\<close> is \<open>AList.update\<close>: a new key goes to the end.\<close>

definition withAccessorArgs ::
  "Prims \<Rightarrow> jsval list \<Rightarrow> Type \<Rightarrow> (string \<times> PreAccessorInfo) list
     \<Rightarrow> (error + Expression list) \<times> (string \<times> PreAccessorInfo) list" where
  "withAccessorArgs P encoded ty infoLookup =
     (case accessorLoop P encoded (length encoded - 1) 0 [] (JObj []) of
        Inl e \<Rightarrow> (Inl e, infoLookup)
      | Inr (pth, options) \<Rightarrow>
          (let key = keyForAccessor P pth ty options;
               args = [LiteralExpression StringType (JStr key)]
           in if key \<in> fst ` set infoLookup then (Inr args, infoLookup)
              else
                (let count = length infoLookup;
                     info = \<lparr>slug = join P pth ''_'' @ ''_'' @ natToString count,
                             path = pth, type = ty,
                             default = (if hasProp ''default'' options
                                        then Some (getProp options ''default'') else None)\<rparr>
                 in (Inr args, AList.update key info infoLookup))))"

definition withGetArgs :: "Prims \<Rightarrow> ArgValidator" where
  "withGetArgs P encoded ty context =
     (case withAccessorArgs P encoded ty (properties context) of
        (Inl e, lookup) \<Rightarrow> (Inl e, context\<lparr>properties := lookup\<rparr>)
      | (Inr args, lookup) \<Rightarrow> (Inr (Some args), context\<lparr>properties := lookup\<rparr>))"

definition withVarArgs :: "Prims \<Rightarrow> ArgValidator" where
  "withVarArgs P encoded ty context =
     (case withAccessorArgs P encoded ty (variables context) of
        (Inl e, lookup) \<Rightarrow> (Inl e, context\<lparr>variables := lookup\<rparr>)
      | (Inr args, lookup) \<Rightarrow> (Inr (Some args), context\<lparr>variables := lookup\<rparr>))"

subsection \<open>Validators without arguments to parse\<close>

definition usesFeatureId :: ArgValidator where
  "usesFeatureId encoded returnType context = (Inr None, context\<lparr>featureId := True\<rparr>)"

definition usesGeometryType :: ArgValidator where
  "usesGeometryType encoded returnType context = (Inr None, context\<lparr>geometryType := True\<rparr>)"

text \<open>In every validator \<^verbatim>\<open>encoded\<close> is a non-empty array whose first item is the
  operator, a string: \<^verbatim>\<open>parse\<close> dispatches on exactly that.\<close>

definition withNoArgs :: "Prims \<Rightarrow> ArgValidator" where
  "withNoArgs P encoded returnType context =
     (if length encoded \<noteq> 1
        then (Inl (Error (''expected no arguments for '' @ jsString P (elemAt encoded 0)
                           @ '' operation'')), context)
      else (Inr (Some []), context))"

text \<open>\<^verbatim>\<open>hasArgsCount(minArgs, maxArgs)\<close>; \<open>None\<close> is \<^verbatim>\<open>Infinity\<close>.\<close>

definition hasArgsCount :: "Prims \<Rightarrow> nat \<Rightarrow> nat option \<Rightarrow> ArgValidator" where
  "hasArgsCount P minArgs maxArgs encoded returnType context =
     (let operation = jsString P (elemAt encoded 0);
          argCount = length encoded - 1
      in if Some minArgs = maxArgs then
           (if argCount \<noteq> minArgs
              then (Inl (Error (''expected '' @ natToString minArgs @ '' argument''
                                 @ (if minArgs = 1 then [] else ''s'')
                                 @ '' for '' @ operation @ '', got '' @ natToString argCount)),
                    context)
            else (Inr None, context))
         else if argCount < minArgs \<or> (case maxArgs of None \<Rightarrow> False | Some m \<Rightarrow> argCount > m)
           then (Inl (Error (''expected ''
                              @ (case maxArgs of
                                   None \<Rightarrow> natToString minArgs @ '' or more''
                                 | Some m \<Rightarrow> natToString minArgs @ '' to '' @ natToString m)
                              @ '' arguments for '' @ operation @ '', got ''
                              @ natToString argCount)),
                 context)
         else (Inr None, context))"

definition hasOddArgs :: "Prims \<Rightarrow> ArgValidator" where
  "hasOddArgs P encoded returnType context =
     (let operation = jsString P (elemAt encoded 0);
          argCount = length encoded - 1
      in if argCount mod 2 = 0
           then (Inl (Error (''expected an odd number of arguments for '' @ operation
                              @ '', got '' @ natToString argCount @ '' instead'')), context)
         else (Inr None, context))"

definition hasEvenArgs :: "Prims \<Rightarrow> ArgValidator" where
  "hasEvenArgs P encoded returnType context =
     (let operation = jsString P (elemAt encoded 0);
          argCount = length encoded - 1
      in if argCount mod 2 = 1
           then (Inl (Error (''expected an even number of arguments for operation '' @ operation
                              @ '', got '' @ natToString argCount @ '' instead'')), context)
         else (Inr None, context))"

subsection \<open>Validators that parse arguments\<close>

function argsLoop ::
  "Parser \<Rightarrow> jsval list \<Rightarrow> Type \<Rightarrow> nat \<Rightarrow> nat \<Rightarrow> Expression list \<Rightarrow> ParsingContext
     \<Rightarrow> Expression list result" where
  "argsLoop p encoded argType argCount i args context =
     (if i < argCount then
        andThen (p (elemAt encoded (i + 1)) argType context)
          (\<lambda>expression context.
             argsLoop p encoded argType argCount (i + 1) (args @ [expression]) context)
      else (Inr args, context))"
  by pat_completeness auto
termination
  by (relation "measure (\<lambda>(p, encoded, argType, argCount, i, args, c). argCount - i)") auto

declare argsLoop.simps [simp del]

definition withArgsOfType :: "Parser \<Rightarrow> Type \<Rightarrow> ArgValidator" where
  "withArgsOfType p argType encoded returnType context =
     andThen (argsLoop p encoded argType (length encoded - 1) 0 [] context)
       (\<lambda>args context. (Inr (Some args), context))"

text \<open>\<^verbatim>\<open>withMatchArgs(inputType)\<close>: the input, then the fallback, then the pairs.\<close>

function matchLoop ::
  "Parser \<Rightarrow> jsval list \<Rightarrow> Type \<Rightarrow> Type \<Rightarrow> nat \<Rightarrow> nat \<Rightarrow> Expression list \<Rightarrow> ParsingContext
     \<Rightarrow> Expression list result" where
  "matchLoop p encoded inputType fallbackType argsCount i args context =
     (if i < argsCount - 2 then
        andThen
          (rethrow (''failed to parse argument '' @ natToString (i + 1) @ '' of match expression: '')
             (p (elemAt encoded (i + 2)) inputType context))
          (\<lambda>matchExpr context.
             andThen
               (rethrow (''failed to parse argument '' @ natToString (i + 2)
                           @ '' of match expression: '')
                  (p (elemAt encoded (i + 3)) fallbackType context))
               (\<lambda>output context.
                  matchLoop p encoded inputType fallbackType argsCount (i + 2)
                    (args @ [matchExpr, output]) context))
      else (Inr args, context))"
  by pat_completeness auto
termination
  by (relation "measure (\<lambda>(p, encoded, inputType, fallbackType, argsCount, i, args, c).
                    argsCount - 2 - i)") auto

declare matchLoop.simps [simp del]

definition withMatchArgs :: "Parser \<Rightarrow> Type \<Rightarrow> ArgValidator" where
  "withMatchArgs p inputType encoded returnType context =
     (let argsCount = length encoded - 1
      in andThen (p (elemAt encoded 1) inputType context)
           (\<lambda>input context.
              andThen (p (elemAt encoded (length encoded - 1)) returnType context)
                (\<lambda>fallback context.
                   if argsCount < 2 then (Inl (RangeError ''Invalid array length''), context)
                   else
                     andThen
                       (matchLoop p encoded (type_of input) (type_of fallback) argsCount 0 []
                          context)
                       (\<lambda>args context. (Inr (Some ([input] @ args @ [fallback])), context)))))"

text \<open>\<^verbatim>\<open>v[i]\<close> for a small index: a property read, which throws on \<^verbatim>\<open>null\<close> and
  \<^verbatim>\<open>undefined\<close>.\<close>

fun getIndex :: "jsval \<Rightarrow> nat \<Rightarrow> error + jsval" where
  "getIndex JUndefined i =
     Inl (TypeError (''Cannot read properties of undefined (reading '' @ [CHR 0x27]
                      @ natToString i @ [CHR 0x27] @ '')''))"
| "getIndex JNull i =
     Inl (TypeError (''Cannot read properties of null (reading '' @ [CHR 0x27]
                      @ natToString i @ [CHR 0x27] @ '')''))"
| "getIndex (JArr xs) i = Inr (elemAt xs i)"
| "getIndex (JStr s) i = Inr (if i < length s then JStr [s ! i] else JUndefined)"
| "getIndex (JObj kvs) i = Inr (getProp (JObj kvs) (natToString i))"
| "getIndex v i = Inr JUndefined"

text \<open>\<^verbatim>\<open>n <= 0\<close>\<close>

fun lessEqZero :: "jsnum \<Rightarrow> bool" where
  "lessEqZero (Finite r) = (r \<le> 0)"
| "lessEqZero NaN = False"
| "lessEqZero PosInfinity = False"
| "lessEqZero NegInfinity = True"

text \<open>The \<^verbatim>\<open>switch\<close> of \<^verbatim>\<open>withInterpolateArgs\<close> on the interpolation type: the base.\<close>

definition interpolationBase :: "Prims \<Rightarrow> jsval \<Rightarrow> error + jsnum" where
  "interpolationBase P interpolationType =
     (case getIndex interpolationType 0 of
        Inl e \<Rightarrow> Inl e
      | Inr kind \<Rightarrow>
          if kind = JStr ''linear'' then Inr (Finite 1)
          else if kind = JStr ''exponential'' then
            (case getIndex interpolationType 1 of
               Inl e \<Rightarrow> Inl e
             | Inr b \<Rightarrow>
                 if \<not> isNumber b \<or> (case b of JNum n \<Rightarrow> lessEqZero n | _ \<Rightarrow> False)
                   then Inl (Error (''expected a number base for exponential interpolation''
                                     @ '', got '' @ jsonText P b @ '' instead''))
                 else Inr (case b of JNum n \<Rightarrow> n | _ \<Rightarrow> NaN))
          else Inl (Error (''invalid interpolation type: '' @ jsonText P interpolationType)))"

function interpolateLoop ::
  "Parser \<Rightarrow> jsval list \<Rightarrow> Type \<Rightarrow> nat \<Rightarrow> nat \<Rightarrow> Expression list \<Rightarrow> ParsingContext
     \<Rightarrow> Expression list result" where
  "interpolateLoop p encoded returnType n i args context =
     (if i < n then
        andThen
          (rethrow (''failed to parse argument '' @ natToString (i + 2)
                      @ '' for interpolate expression: '')
             (p (elemAt encoded (i + 3)) NumberType context))
          (\<lambda>stop context.
             andThen
               (rethrow (''failed to parse argument '' @ natToString (i + 3)
                           @ '' for interpolate expression: '')
                  (p (elemAt encoded (i + 4)) returnType context))
               (\<lambda>output context.
                  interpolateLoop p encoded returnType n (i + 2) (args @ [stop, output]) context))
      else (Inr args, context))"
  by pat_completeness auto
termination
  by (relation "measure (\<lambda>(p, encoded, returnType, n, i, args, c). n - i)") auto

declare interpolateLoop.simps [simp del]

definition withInterpolateArgs :: "Prims \<Rightarrow> Parser \<Rightarrow> ArgValidator" where
  "withInterpolateArgs P p encoded returnType context =
     (case interpolationBase P (elemAt encoded 1) of
        Inl e \<Rightarrow> (Inl e, context)
      | Inr base \<Rightarrow>
          (let interpolation = LiteralExpression NumberType (JNum base)
           in andThen
                (rethrow ''failed to parse argument 1 in interpolate expression: ''
                   (p (elemAt encoded 2) NumberType context))
                (\<lambda>input context.
                   if length encoded < 3 then (Inl (RangeError ''Invalid array length''), context)
                   else
                     andThen
                       (interpolateLoop p encoded returnType (length encoded - 3) 0 [] context)
                       (\<lambda>args context. (Inr (Some ([interpolation, input] @ args)), context)))))"

text \<open>\<^verbatim>\<open>withCaseArgs\<close>: the fallback first, then the pairs; the array has
  \<^verbatim>\<open>encoded.length - 1\<close> places and the fallback is written into the last one.\<close>

function caseLoop ::
  "Parser \<Rightarrow> jsval list \<Rightarrow> Type \<Rightarrow> nat \<Rightarrow> nat \<Rightarrow> Expression list \<Rightarrow> ParsingContext
     \<Rightarrow> Expression list result" where
  "caseLoop p encoded fallbackType n i args context =
     (if i < n - 1 then
        andThen
          (rethrow (''failed to parse argument '' @ natToString i @ '' of case expression: '')
             (p (elemAt encoded (i + 1)) BooleanType context))
          (\<lambda>condition context.
             andThen
               (rethrow (''failed to parse argument '' @ natToString (i + 1)
                           @ '' of case expression: '')
                  (p (elemAt encoded (i + 2)) fallbackType context))
               (\<lambda>output context.
                  caseLoop p encoded fallbackType n (i + 2) (args @ [condition, output]) context))
      else (Inr args, context))"
  by pat_completeness auto
termination
  by (relation "measure (\<lambda>(p, encoded, fallbackType, n, i, args, c). n - 1 - i)") auto

declare caseLoop.simps [simp del]

definition withCaseArgs :: "Parser \<Rightarrow> ArgValidator" where
  "withCaseArgs p encoded returnType context =
     andThen (p (elemAt encoded (length encoded - 1)) returnType context)
       (\<lambda>fallback context.
          andThen (caseLoop p encoded (type_of fallback) (length encoded - 1) 0 [] context)
            (\<lambda>args context.
               (Inr (Some (if length encoded - 1 = 0 then []
                           else take (length encoded - 1 - 1) args @ [fallback])),
                context)))"

function inLoop ::
  "Parser \<Rightarrow> jsval list \<Rightarrow> Type \<Rightarrow> nat \<Rightarrow> Expression list \<Rightarrow> ParsingContext
     \<Rightarrow> Expression list result" where
  \<open>inLoop p haystack needleType i args context =
     (if i < length haystack then
        andThen
          (rethrow (''failed to parse haystack item '' @ natToString i @ '' for "in" expression: '')
             (p (elemAt haystack i) needleType context))
          (\<lambda>arg context. inLoop p haystack needleType (i + 1) (args @ [arg]) context)
      else (Inr args, context))\<close>
  by pat_completeness auto
termination
  by (relation "measure (\<lambda>(p, haystack, needleType, i, args, c). length haystack - i)") auto

declare inLoop.simps [simp del]

text \<open>What \<^verbatim>\<open>withInArgs\<close> does once the haystack and the needle type are known.\<close>

definition inArgs :: "Parser \<Rightarrow> jsval list \<Rightarrow> jsval list \<Rightarrow> Type \<Rightarrow> ParsingContext
     \<Rightarrow> Expression list option result" where
  "inArgs p encoded haystack needleType context =
     andThen (inLoop p haystack needleType 0 [] context)
       (\<lambda>args context.
          andThen (p (elemAt encoded 1) needleType context)
            (\<lambda>needle context. (Inr (Some ([needle] @ args)), context)))"

definition withInArgs :: "Parser \<Rightarrow> ArgValidator" where
  \<open>withInArgs p encoded returnType context =
     (case elemAt encoded 2 of
        JArr haystack \<Rightarrow>
          (if isString (elemAt haystack 0) then
             (if elemAt haystack 0 \<noteq> JStr ''literal''
                then (Inl (Error ''for the "in" operator, a string array should be wrapped in a "literal" operator to disambiguate from expressions''),
                      context)
              else
                (case elemAt haystack 1 of
                   JArr literal \<Rightarrow> inArgs p encoded literal StringType context
                 | _ \<Rightarrow>
                     (Inl (Error ''failed to parse "in" expression: the literal operator must be followed by an array''),
                      context)))
           else inArgs p encoded haystack NumberType context)
      | _ \<Rightarrow>
          (Inl (Error ''the second argument for the "in" operator must be an array''), context))\<close>

function paletteLoop ::
  "Parser \<Rightarrow> jsval list \<Rightarrow> nat \<Rightarrow> Expression list \<Rightarrow> ParsingContext
     \<Rightarrow> Expression list result" where
  "paletteLoop p colors i parsedColors context =
     (if i < length colors then
        andThen
          (rethrow (''failed to parse color at index '' @ natToString i
                      @ '' in palette expression: '')
             (p (elemAt colors i) ColorType context))
          (\<lambda>color context.
             if \<not> isLiteral color
               then (Inl (Error (''the palette color at index '' @ natToString i
                                  @ '' must be a literal value'')), context)
             else paletteLoop p colors (i + 1) (parsedColors @ [color]) context)
      else (Inr parsedColors, context))"
  by pat_completeness auto
termination
  by (relation "measure (\<lambda>(p, colors, i, parsedColors, c). length colors - i)") auto

declare paletteLoop.simps [simp del]

definition withPaletteArgs :: "Parser \<Rightarrow> ArgValidator" where
  "withPaletteArgs p encoded returnType context =
     andThen
       (rethrow ''failed to parse first argument in palette expression: ''
          (p (elemAt encoded 1) NumberType context))
       (\<lambda>index context.
          (case elemAt encoded 2 of
             JArr colors \<Rightarrow>
               andThen (paletteLoop p colors 0 [] context)
                 (\<lambda>parsedColors context. (Inr (Some ([index] @ parsedColors)), context))
           | _ \<Rightarrow> (Inl (Error ''the second argument of palette must be an array''), context)))"

subsection \<open>Call expressions\<close>

text \<open>The loop of \<^verbatim>\<open>createCallExpressionParser\<close> over the validators: what is left in
  \<^verbatim>\<open>args\<close>, which stays \<^verbatim>\<open>undefined\<close> (\<open>None\<close>) when there is no validator.\<close>

fun runValidators :: "ArgValidator list \<Rightarrow> ArgValidator" where
  "runValidators [] encoded returnType context = (Inr None, context)"
| "runValidators (v # vs) encoded returnType context =
     andThen (v encoded returnType context)
       (\<lambda>parsed context.
          if vs = [] then
            (case parsed of
               None \<Rightarrow>
                 (Inl (Error ''expected last argument validator to return the parsed args''),
                  context)
             | Some args \<Rightarrow> (Inr (Some args), context))
          else runValidators vs encoded returnType context)"

definition createCallExpressionParser ::
  "Prims \<Rightarrow> ArgValidator list \<Rightarrow> jsval list \<Rightarrow> Type \<Rightarrow> ParsingContext \<Rightarrow> Expression result" where
  "createCallExpressionParser P validators encoded returnType context =
     (let operator = jsString P (elemAt encoded 0)
      in andThen (runValidators validators encoded returnType context)
           (\<lambda>args context.
              (case args of
                 None \<Rightarrow> (Inl (TypeError ''undefined is not iterable''), context)
               | Some as \<Rightarrow> (Inr (CallExpression returnType operator as), context))))"

text \<open>The table \<^verbatim>\<open>parsers\<close>, in the order of the source. It is read as a
  dictionary of its own keys, the operators.\<close>

definition parsers ::
  "Prims \<Rightarrow> Parser
     \<Rightarrow> (string \<times> (jsval list \<Rightarrow> Type \<Rightarrow> ParsingContext \<Rightarrow> Expression result)) list" where
  "parsers P p =
    [(''get'', createCallExpressionParser P [hasArgsCount P 1 None, withGetArgs P]),
     (''has'', createCallExpressionParser P [hasArgsCount P 1 None, withGetArgs P]),
     (''var'', createCallExpressionParser P [hasArgsCount P 1 None, withVarArgs P]),
     (''id'', createCallExpressionParser P [usesFeatureId, withNoArgs P]),
     (''concat'', createCallExpressionParser P [hasArgsCount P 2 None, withArgsOfType p StringType]),
     (''geometry-type'', createCallExpressionParser P [usesGeometryType, withNoArgs P]),
     (''line-metric'', createCallExpressionParser P [withNoArgs P]),
     (''resolution'', createCallExpressionParser P [withNoArgs P]),
     (''zoom'', createCallExpressionParser P [withNoArgs P]),
     (''time'', createCallExpressionParser P [withNoArgs P]),
     (''any'', createCallExpressionParser P [hasArgsCount P 2 None, withArgsOfType p BooleanType]),
     (''all'', createCallExpressionParser P [hasArgsCount P 2 None, withArgsOfType p BooleanType]),
     (''!'', createCallExpressionParser P [hasArgsCount P 1 (Some 1), withArgsOfType p BooleanType]),
     (''=='', createCallExpressionParser P [hasArgsCount P 2 (Some 2), withArgsOfType p NumberType]),
     (''!='', createCallExpressionParser P [hasArgsCount P 2 (Some 2), withArgsOfType p NumberType]),
     (''>'', createCallExpressionParser P [hasArgsCount P 2 (Some 2), withArgsOfType p NumberType]),
     (''>='', createCallExpressionParser P [hasArgsCount P 2 (Some 2), withArgsOfType p NumberType]),
     (''<'', createCallExpressionParser P [hasArgsCount P 2 (Some 2), withArgsOfType p NumberType]),
     (''<='', createCallExpressionParser P [hasArgsCount P 2 (Some 2), withArgsOfType p NumberType]),
     (''*'', createCallExpressionParser P [hasArgsCount P 2 None, withArgsOfType p NumberType]),
     (''/'', createCallExpressionParser P [hasArgsCount P 2 (Some 2), withArgsOfType p NumberType]),
     (''+'', createCallExpressionParser P [hasArgsCount P 2 None, withArgsOfType p NumberType]),
     (''-'', createCallExpressionParser P [hasArgsCount P 2 (Some 2), withArgsOfType p NumberType]),
     (''clamp'', createCallExpressionParser P [hasArgsCount P 3 (Some 3), withArgsOfType p NumberType]),
     (''%'', createCallExpressionParser P [hasArgsCount P 2 (Some 2), withArgsOfType p NumberType]),
     (''^'', createCallExpressionParser P [hasArgsCount P 2 (Some 2), withArgsOfType p NumberType]),
     (''abs'', createCallExpressionParser P [hasArgsCount P 1 (Some 1), withArgsOfType p NumberType]),
     (''floor'', createCallExpressionParser P [hasArgsCount P 1 (Some 1), withArgsOfType p NumberType]),
     (''ceil'', createCallExpressionParser P [hasArgsCount P 1 (Some 1), withArgsOfType p NumberType]),
     (''round'', createCallExpressionParser P [hasArgsCount P 1 (Some 1), withArgsOfType p NumberType]),
     (''sin'', createCallExpressionParser P [hasArgsCount P 1 (Some 1), withArgsOfType p NumberType]),
     (''cos'', createCallExpressionParser P [hasArgsCount P 1 (Some 1), withArgsOfType p NumberType]),
     (''atan'', createCallExpressionParser P [hasArgsCount P 1 (Some 2), withArgsOfType p NumberType]),
     (''sqrt'', createCallExpressionParser P [hasArgsCount P 1 (Some 1), withArgsOfType p NumberType]),
     (''match-string'',
        createCallExpressionParser P
          [hasArgsCount P 4 None, hasEvenArgs P, withMatchArgs p StringType]),
     (''match-number'',
        createCallExpressionParser P
          [hasArgsCount P 4 None, hasEvenArgs P, withMatchArgs p NumberType]),
     (''between'', createCallExpressionParser P [hasArgsCount P 3 (Some 3), withArgsOfType p NumberType]),
     (''interpolate'',
        createCallExpressionParser P
          [hasArgsCount P 6 None, hasEvenArgs P, withInterpolateArgs P p]),
     (''case'',
        createCallExpressionParser P [hasArgsCount P 3 None, hasOddArgs P, withCaseArgs p]),
     (''in'', createCallExpressionParser P [hasArgsCount P 2 (Some 2), withInArgs p]),
     (''array'', createCallExpressionParser P [hasArgsCount P 1 None, withArgsOfType p NumberType]),
     (''color'', createCallExpressionParser P [hasArgsCount P 1 (Some 4), withArgsOfType p NumberType]),
     (''band'', createCallExpressionParser P [hasArgsCount P 1 (Some 3), withArgsOfType p NumberType]),
     (''palette'', createCallExpressionParser P [hasArgsCount P 2 (Some 2), withPaletteArgs p])]"

definition parseCallExpression ::
  "Prims \<Rightarrow> Parser \<Rightarrow> jsval list \<Rightarrow> Type \<Rightarrow> ParsingContext \<Rightarrow> Expression result" where
  "parseCallExpression P p encoded returnType context =
     (let operator = jsString P (elemAt encoded 0)
      in case map_of (parsers P p) operator of
           None \<Rightarrow> (Inl (Error (''unknown operator: '' @ operator)), context)
         | Some parser \<Rightarrow> parser encoded returnType context)"

subsection \<open>The validators call the parser on smaller values only\<close>

definition agreeBelow :: "nat \<Rightarrow> Parser \<Rightarrow> Parser \<Rightarrow> bool" where
  "agreeBelow n p q = (\<forall>x T c. size x < n \<longrightarrow> p x T c = q x T c)"

lemma agreeBelow_mono: "agreeBelow n p q \<Longrightarrow> m \<le> n \<Longrightarrow> agreeBelow m p q"
  by (auto simp: agreeBelow_def)

lemma size_elemAt: "size (elemAt xs i) < Suc (size_list size xs)"
proof (cases "i < length xs")
  case True
  then have "xs ! i \<in> set xs" by simp
  then have "size (xs ! i) \<le> size_list size xs" by (simp add: size_list_estimation')
  with True show ?thesis by (simp add: elemAt_def)
next
  case False
  then show ?thesis by (simp add: elemAt_def)
qed

lemma size_elemAt_JArr: "elemAt xs i = JArr ys \<Longrightarrow> Suc (size_list size ys) \<le> size_list size xs"
  using size_elemAt [of xs i] by simp

lemma agreeBelow_elemAt:
  "agreeBelow (Suc (size_list size xs)) p q \<Longrightarrow> p (elemAt xs i) T c = q (elemAt xs i) T c"
  by (simp add: agreeBelow_def size_elemAt)

lemma agreeBelow_inner:
  "agreeBelow (Suc (size_list size xs)) p q \<Longrightarrow> elemAt xs i = JArr ys
     \<Longrightarrow> agreeBelow (Suc (size_list size ys)) p q"
  by (erule agreeBelow_mono) (drule size_elemAt_JArr, simp)

lemma argsLoop_step:
  "i < argCount \<Longrightarrow> argsLoop p encoded argType argCount i args ctx =
     andThen (p (elemAt encoded (Suc i)) argType ctx)
          (\<lambda>expression c. argsLoop p encoded argType argCount (Suc i) (args @ [expression]) c)"
  by (subst argsLoop.simps) simp

lemma argsLoop_done:
  "\<not> i < argCount \<Longrightarrow> argsLoop p encoded argType argCount i args ctx = (Inr args, ctx)"
  by (subst argsLoop.simps) simp

lemma argsLoop_agree:
  assumes "agreeBelow (Suc (size_list size encoded)) p q"
  shows "argsLoop p encoded argType argCount i args ctx
           = argsLoop q encoded argType argCount i args ctx"
proof (induction "argCount - i" arbitrary: i args ctx)
  case 0
  then show ?case by (simp add: argsLoop_done)
next
  case (Suc n)
  then have lt: "i < argCount" and n: "n = argCount - Suc i" by simp_all
  show ?case
    by (simp add: argsLoop_step [OF lt] agreeBelow_elemAt [OF assms] Suc.hyps(1) [OF n])
qed

lemma withArgsOfType_agree:
  assumes "agreeBelow (Suc (size_list size encoded)) p q"
  shows "withArgsOfType p argType encoded = withArgsOfType q argType encoded"
  by (intro ext) (simp add: withArgsOfType_def argsLoop_agree [OF assms])

lemma matchLoop_step:
  "i < argsCount - 2 \<Longrightarrow> matchLoop p encoded inputType fallbackType argsCount i args ctx =
     andThen
          (rethrow (''failed to parse argument '' @ natToString (Suc i) @ '' of match expression: '')
             (p (elemAt encoded (Suc (Suc i))) inputType ctx))
          (\<lambda>matchExpr c.
             andThen
               (rethrow (''failed to parse argument '' @ natToString (Suc (Suc i))
                           @ '' of match expression: '')
                  (p (elemAt encoded (Suc (Suc (Suc i)))) fallbackType c))
               (\<lambda>output c.
                  matchLoop p encoded inputType fallbackType argsCount (Suc (Suc i))
                    (args @ [matchExpr, output]) c))"
  by (subst matchLoop.simps) (simp add: numeral_3_eq_3)

lemma matchLoop_done:
  "\<not> i < argsCount - 2 \<Longrightarrow>
     matchLoop p encoded inputType fallbackType argsCount i args ctx = (Inr args, ctx)"
  by (subst matchLoop.simps) simp

lemma matchLoop_agree:
  assumes "agreeBelow (Suc (size_list size encoded)) p q"
  shows "matchLoop p encoded inputType fallbackType argsCount i args ctx
           = matchLoop q encoded inputType fallbackType argsCount i args ctx"
proof (induction "argsCount - 2 - i" arbitrary: i args ctx rule: less_induct)
  case less
  show ?case
  proof (cases "i < argsCount - 2")
    case True
    then have "argsCount - 2 - Suc (Suc i) < argsCount - 2 - i" by simp
    then show ?thesis
      by (simp add: matchLoop_step [OF True] agreeBelow_elemAt [OF assms] less.hyps)
  next
    case False
    then show ?thesis by (simp add: matchLoop_done)
  qed
qed

lemma withMatchArgs_agree:
  assumes "agreeBelow (Suc (size_list size encoded)) p q"
  shows "withMatchArgs p inputType encoded = withMatchArgs q inputType encoded"
  by (intro ext)
     (simp add: withMatchArgs_def Let_def matchLoop_agree [OF assms] agreeBelow_elemAt [OF assms]
           cong: if_cong)


lemma interpolateLoop_step:
  "i < n \<Longrightarrow> interpolateLoop p encoded returnType n i args ctx =
     andThen
          (rethrow (''failed to parse argument '' @ natToString (i + 2)
                      @ '' for interpolate expression: '')
             (p (elemAt encoded (i + 3)) NumberType ctx))
          (\<lambda>stop c.
             andThen
               (rethrow (''failed to parse argument '' @ natToString (i + 3)
                           @ '' for interpolate expression: '')
                  (p (elemAt encoded (i + 4)) returnType c))
               (\<lambda>output c.
                  interpolateLoop p encoded returnType n (i + 2) (args @ [stop, output]) c))"
  by (subst interpolateLoop.simps) (simp only: if_True)

lemma interpolateLoop_done:
  "\<not> i < n \<Longrightarrow> interpolateLoop p encoded returnType n i args ctx = (Inr args, ctx)"
  by (subst interpolateLoop.simps) simp

lemma interpolateLoop_agree:
  assumes "agreeBelow (Suc (size_list size encoded)) p q"
  shows "interpolateLoop p encoded returnType n i args ctx
           = interpolateLoop q encoded returnType n i args ctx"
proof (induction "n - i" arbitrary: i args ctx rule: less_induct)
  case less
  show ?case
  proof (cases "i < n")
    case True
    then have "n - Suc (Suc i) < n - i" by simp
    then show ?thesis
      by (simp add: interpolateLoop_step [OF True] agreeBelow_elemAt [OF assms] less.hyps)
  next
    case False
    then show ?thesis by (simp add: interpolateLoop_done)
  qed
qed

lemma withInterpolateArgs_agree:
  assumes "agreeBelow (Suc (size_list size encoded)) p q"
  shows "withInterpolateArgs P p encoded = withInterpolateArgs P q encoded"
  by (intro ext)
     (simp add: withInterpolateArgs_def Let_def interpolateLoop_agree [OF assms]
           agreeBelow_elemAt [OF assms] cong: if_cong sum.case_cong)

lemma caseLoop_step:
  "i < n - 1 \<Longrightarrow> caseLoop p encoded fallbackType n i args ctx =
     andThen
          (rethrow (''failed to parse argument '' @ natToString i @ '' of case expression: '')
             (p (elemAt encoded (Suc i)) BooleanType ctx))
          (\<lambda>condition c.
             andThen
               (rethrow (''failed to parse argument '' @ natToString (Suc i)
                           @ '' of case expression: '')
                  (p (elemAt encoded (Suc (Suc i))) fallbackType c))
               (\<lambda>output c.
                  caseLoop p encoded fallbackType n (Suc (Suc i)) (args @ [condition, output]) c))"
  by (subst caseLoop.simps) simp

lemma caseLoop_done:
  "\<not> i < n - 1 \<Longrightarrow> caseLoop p encoded fallbackType n i args ctx = (Inr args, ctx)"
  by (subst caseLoop.simps) simp

lemma caseLoop_agree:
  assumes "agreeBelow (Suc (size_list size encoded)) p q"
  shows "caseLoop p encoded fallbackType n i args ctx
           = caseLoop q encoded fallbackType n i args ctx"
proof (induction "n - 1 - i" arbitrary: i args ctx rule: less_induct)
  case less
  show ?case
  proof (cases "i < n - 1")
    case True
    then have "n - 1 - Suc (Suc i) < n - 1 - i" by simp
    then show ?thesis
      by (simp add: caseLoop_step [OF True] agreeBelow_elemAt [OF assms] less.hyps)
  next
    case False
    then show ?thesis by (simp add: caseLoop_done)
  qed
qed

lemma withCaseArgs_agree:
  assumes "agreeBelow (Suc (size_list size encoded)) p q"
  shows "withCaseArgs p encoded = withCaseArgs q encoded"
  by (intro ext)
     (simp add: withCaseArgs_def caseLoop_agree [OF assms] agreeBelow_elemAt [OF assms])

lemma inLoop_step:
  \<open>i < length haystack \<Longrightarrow> inLoop p haystack needleType i args ctx =
     andThen
          (rethrow (''failed to parse haystack item '' @ natToString i @ '' for "in" expression: '')
             (p (elemAt haystack i) needleType ctx))
          (\<lambda>arg c. inLoop p haystack needleType (Suc i) (args @ [arg]) c)\<close>
  by (subst inLoop.simps) simp

lemma inLoop_done:
  "\<not> i < length haystack \<Longrightarrow> inLoop p haystack needleType i args ctx = (Inr args, ctx)"
  by (subst inLoop.simps) simp

lemma inLoop_agree:
  assumes "agreeBelow (Suc (size_list size haystack)) p q"
  shows "inLoop p haystack needleType i args ctx = inLoop q haystack needleType i args ctx"
proof (induction "length haystack - i" arbitrary: i args ctx rule: less_induct)
  case less
  show ?case
  proof (cases "i < length haystack")
    case True
    then have "length haystack - Suc i < length haystack - i" by simp
    then show ?thesis
      by (simp add: inLoop_step [OF True] agreeBelow_elemAt [OF assms] less.hyps)
  next
    case False
    then show ?thesis by (simp add: inLoop_done)
  qed
qed

lemma inArgs_agree:
  assumes "agreeBelow (Suc (size_list size encoded)) p q"
    and "agreeBelow (Suc (size_list size haystack)) p q"
  shows "inArgs p encoded haystack needleType ctx = inArgs q encoded haystack needleType ctx"
  by (simp add: inArgs_def inLoop_agree [OF assms(2)] agreeBelow_elemAt [OF assms(1)])

lemma withInArgs_agree:
  assumes "agreeBelow (Suc (size_list size encoded)) p q"
  shows "withInArgs p encoded = withInArgs q encoded"
proof (intro ext)
  fix returnType ctx
  show "withInArgs p encoded returnType ctx = withInArgs q encoded returnType ctx"
  proof (cases "elemAt encoded 2")
    case (JArr haystack)
    have h: "agreeBelow (Suc (size_list size haystack)) p q"
      by (rule agreeBelow_inner [OF assms JArr])
    show ?thesis
    proof (cases "elemAt haystack 1")
      case (JArr literal)
      have "agreeBelow (Suc (size_list size literal)) p q"
        by (rule agreeBelow_inner [OF h JArr])
      then show ?thesis
        using \<open>elemAt encoded 2 = JArr haystack\<close> JArr
        by (simp add: withInArgs_def inArgs_agree [OF assms h] inArgs_agree [OF assms])
    qed (use \<open>elemAt encoded 2 = JArr haystack\<close> in
           \<open>simp_all add: withInArgs_def inArgs_agree [OF assms h]\<close>)
  qed (simp_all add: withInArgs_def)
qed

lemma paletteLoop_step:
  "i < length colors \<Longrightarrow> paletteLoop p colors i parsedColors ctx =
     andThen
          (rethrow (''failed to parse color at index '' @ natToString i
                      @ '' in palette expression: '')
             (p (elemAt colors i) ColorType ctx))
          (\<lambda>color c.
             if \<not> isLiteral color
               then (Inl (Error (''the palette color at index '' @ natToString i
                                  @ '' must be a literal value'')), c)
             else paletteLoop p colors (Suc i) (parsedColors @ [color]) c)"
  by (subst paletteLoop.simps) (simp cong: if_cong)

lemma paletteLoop_done:
  "\<not> i < length colors \<Longrightarrow> paletteLoop p colors i parsedColors ctx = (Inr parsedColors, ctx)"
  by (subst paletteLoop.simps) (simp cong: if_cong)

lemma paletteLoop_agree:
  assumes "agreeBelow (Suc (size_list size colors)) p q"
  shows "paletteLoop p colors i parsedColors ctx = paletteLoop q colors i parsedColors ctx"
proof (induction "length colors - i" arbitrary: i parsedColors ctx rule: less_induct)
  case less
  show ?case
  proof (cases "i < length colors")
    case True
    then have "length colors - Suc i < length colors - i" by simp
    then show ?thesis
      by (simp add: paletteLoop_step [OF True] agreeBelow_elemAt [OF assms] less.hyps
               cong: if_cong)
  next
    case False
    then show ?thesis by (simp add: paletteLoop_done)
  qed
qed

lemma withPaletteArgs_agree:
  assumes "agreeBelow (Suc (size_list size encoded)) p q"
  shows "withPaletteArgs p encoded = withPaletteArgs q encoded"
proof (intro ext)
  fix returnType ctx
  show "withPaletteArgs p encoded returnType ctx = withPaletteArgs q encoded returnType ctx"
  proof (cases "elemAt encoded 2")
    case (JArr colors)
    have "agreeBelow (Suc (size_list size colors)) p q"
      by (rule agreeBelow_inner [OF assms JArr])
    then show ?thesis
      using JArr
      by (simp add: withPaletteArgs_def paletteLoop_agree agreeBelow_elemAt [OF assms])
  qed (simp_all add: withPaletteArgs_def agreeBelow_elemAt [OF assms])
qed


definition sameAt :: "jsval list \<Rightarrow> ArgValidator \<Rightarrow> ArgValidator \<Rightarrow> bool" where
  "sameAt encoded v w = (v encoded = w encoded)"

lemma sameAt_refl [simp]: "sameAt encoded v v"
  by (simp add: sameAt_def)

lemma runValidators_same:
  "list_all2 (sameAt encoded) vs ws
     \<Longrightarrow> runValidators vs encoded returnType ctx = runValidators ws encoded returnType ctx"
proof (induction vs ws arbitrary: ctx rule: list_all2_induct)
  case Nil
  then show ?case by simp
next
  case (Cons v vs w ws)
  from Cons.hyps(2) have e: "(vs = []) = (ws = [])" by (auto simp: list_all2_Nil list_all2_Nil2)
  from Cons.hyps(1) have vw: "v encoded returnType ctx = w encoded returnType ctx"
    by (simp add: sameAt_def)
  show ?case by (simp add: vw e Cons.IH cong: if_cong)
qed

lemma createCallExpressionParser_same:
  "list_all2 (sameAt encoded) vs ws
     \<Longrightarrow> createCallExpressionParser P vs encoded = createCallExpressionParser P ws encoded"
  by (intro ext) (simp add: createCallExpressionParser_def runValidators_same)

lemma parsers_same:
  assumes "agreeBelow (Suc (size_list size encoded)) p q"
  shows "list_all2 (\<lambda>(k, f) (k', g). k = k' \<and> f encoded = g encoded) (parsers P p) (parsers P q)"
  unfolding parsers_def
  by (simp add: createCallExpressionParser_same sameAt_def withArgsOfType_agree [OF assms]
        withMatchArgs_agree [OF assms] withInterpolateArgs_agree [OF assms]
        withCaseArgs_agree [OF assms] withInArgs_agree [OF assms] withPaletteArgs_agree [OF assms])

lemma map_of_same:
  "list_all2 (\<lambda>(k, f) (k', g). k = k' \<and> f encoded = g encoded) xs ys
     \<Longrightarrow> rel_option (\<lambda>f g. f encoded = g encoded) (map_of xs k) (map_of ys k)"
  by (induction xs ys rule: list_all2_induct) auto

lemma parseCallExpression_cong [fundef_cong]:
  assumes "\<And>x T c. size x < Suc (size_list size encoded) \<Longrightarrow> p x T c = q x T c"
  shows "parseCallExpression P p encoded returnType ctx
           = parseCallExpression P q encoded returnType ctx"
proof -
  have "agreeBelow (Suc (size_list size encoded)) p q"
    using assms by (simp add: agreeBelow_def)
  then have "rel_option (\<lambda>f g. f encoded = g encoded)
               (map_of (parsers P p) (jsString P (elemAt encoded 0)))
               (map_of (parsers P q) (jsString P (elemAt encoded 0)))"
    by (intro map_of_same parsers_same)
  then show ?thesis
    by (auto simp: parseCallExpression_def Let_def elim!: option.rel_cases)
qed

subsection \<open>The entry point\<close>

function parse :: "Prims \<Rightarrow> jsval \<Rightarrow> Type \<Rightarrow> ParsingContext \<Rightarrow> Expression result" where
  "parse P encoded expectedType context =
     (case encoded of
        JArr xs \<Rightarrow>
          (if length xs = 0 then (Inl (Error ''empty expression''), context)
           else if isString (elemAt xs 0)
             then parseCallExpression P (parse P) xs expectedType context
           else (parseLiteralExpression P encoded expectedType, context))
      | _ \<Rightarrow> (parseLiteralExpression P encoded expectedType, context))"
  by pat_completeness auto
termination
  by (relation "measure (\<lambda>(P, encoded, expectedType, c). size encoded)") auto

declare parse.simps [simp del]

section \<open>The accessor processor\<close>









subsection \<open>What the processor is to compute\<close>




section \<open>Predicates on parses and contexts\<close>

fun mentions :: "string \<Rightarrow> Expression \<Rightarrow> bool" where
  "mentions name (LiteralExpression t v) = False"
| "mentions name (CallExpression t operator as) =
     (operator = name \<or> list_ex (mentions name) as)"

definition extends :: "ParsingContext \<Rightarrow> ParsingContext \<Rightarrow> bool" where
  "extends c c' =
     (prefix (properties c) (properties c') \<and> prefix (variables c) (variables c') \<and>
      (featureId c \<longrightarrow> featureId c') \<and> (geometryType c \<longrightarrow> geometryType c'))"

definition step :: "ParsingContext \<Rightarrow> Expression list \<Rightarrow> ParsingContext \<Rightarrow> bool" where
  "step c es c' =
     (extends c c' \<and>
      featureId c' = (featureId c \<or> list_ex (mentions ''id'') es) \<and>
      geometryType c' = (geometryType c \<or> list_ex (mentions ''geometry-type'') es))"






section \<open>Accessor registrations\<close>











section \<open>Interpolation in the evaluator\<close>

text \<open>Modelled from the spec: the CPU evaluator (\<^verbatim>\<open>ol/expr/cpu.js\<close>), which is not among
  the sources; only its tests are. This is the interpolation of section 4.5.1 of the
  specification, on the value \<open>x\<close> of the input and the values \<open>(s, o)\<close> of the stops in
  the evaluation context. An output is a number or a colour of four channels.\<close>

datatype Output = NumberOutput real | ColorOutput real real real real

text \<open>Modelled from the spec: the output \<open>(1 - t) * o\<^sub>i + t * o\<^sub>i\<^sub>+\<^sub>1\<close>; a colour is blended
  channel by channel, the RGB channels rounded to integers, alpha kept.\<close>

fun blend :: "real \<Rightarrow> Output \<Rightarrow> Output \<Rightarrow> Output option" where
  "blend t (NumberOutput a) (NumberOutput b) = Some (NumberOutput ((1 - t) * a + t * b))"
| "blend t (ColorOutput r1 g1 b1 a1) (ColorOutput r2 g2 b2 a2) =
     Some (ColorOutput (of_int (round ((1 - t) * r1 + t * r2)))
                       (of_int (round ((1 - t) * g1 + t * g2)))
                       (of_int (round ((1 - t) * b1 + t * b2)))
                       ((1 - t) * a1 + t * a2))"
| "blend t a b = None"

text \<open>Modelled from the spec: the weight \<open>t\<close>, linear for the base 1 and exponential
  otherwise, with \<open>y = x - s\<^sub>i\<close> and \<open>\<Delta> = s\<^sub>i\<^sub>+\<^sub>1 - s\<^sub>i\<close>.\<close>

definition weight :: "real \<Rightarrow> real \<Rightarrow> real \<Rightarrow> real" where
  "weight base y delta =
     (if base = 1 then y / delta else (base powr y - 1) / (base powr delta - 1))"

text \<open>Modelled from the spec: find \<open>i\<close> with \<open>s\<^sub>i \<le> x < s\<^sub>i\<^sub>+\<^sub>1\<close>; if \<open>\<Delta> = 0\<close> return
  \<open>o\<^sub>i\<^sub>+\<^sub>1\<close>, otherwise the blend.\<close>

fun findSegment :: "real \<Rightarrow> real \<Rightarrow> (real \<times> Output) list \<Rightarrow> Output option" where
  "findSegment base x ((s1, o1) # (s2, o2) # rest) =
     (if s1 \<le> x \<and> x < s2
        then (if s2 - s1 = 0 then Some o2 else blend (weight base (x - s1) (s2 - s1)) o1 o2)
      else findSegment base x ((s2, o2) # rest))"
| "findSegment base x stops = None"

text \<open>Modelled from the spec: if \<open>x \<le> s\<^sub>1\<close> return \<open>o\<^sub>1\<close>; if \<open>x \<ge> s\<^sub>n\<close> return \<open>o\<^sub>n\<close>;
  otherwise the segment. \<open>None\<close> stands for what the specification leaves open (no
  stops, no segment, outputs of two kinds).\<close>

definition interpolate :: "real \<Rightarrow> real \<Rightarrow> (real \<times> Output) list \<Rightarrow> Output option" where
  "interpolate base x stops =
     (if stops = [] then None
      else if x \<le> fst (hd stops) then Some (snd (hd stops))
      else if x \<ge> fst (last stops) then Some (snd (last stops))
      else findSegment base x stops)"

section \<open>A sample engine\<close>

text \<open>One concrete choice of the engine's functions, used to run the model on concrete
  inputs: whole numbers print in decimal, the only numeric strings are the empty one and
  the single digits, and the colour names are \<^verbatim>\<open>red\<close> and \<^verbatim>\<open>blue\<close>.\<close>

definition samplePrims :: Prims where
  "samplePrims =
     \<lparr>numberToString =
        (\<lambda>r. if r < 0 then ''-'' @ natToString (nat \<lfloor>- r\<rfloor>) else natToString (nat \<lfloor>r\<rfloor>)),
      stringToNumber =
        (\<lambda>s. if s = [] then Finite 0
             else if length s = 1 \<and> hd s \<in> set ''0123456789''
               then Finite (of_nat (of_char (hd s) - 48))
             else NaN),
      colorFromString =
        (\<lambda>s. if s = ''red''
               then Inr (JArr [JNum (Finite 255), JNum (Finite 0), JNum (Finite 0), JNum (Finite 1)])
             else if s = ''blue''
               then Inr (JArr [JNum (Finite 0), JNum (Finite 0), JNum (Finite 255), JNum (Finite 1)])
             else Inl (Error (''failed to parse '' @ quoteJSONString s @ '' as color'')))\<rparr>"

section \<open>Evaluation\<close>




section \<open>The type of a parsed expression\<close>







section \<open>Coercions of booleans and of null\<close>

text \<open>
  C3. The claim is that a boolean cannot be coerced to a number. The code converts with
  \<^verbatim>\<open>Number(encoded)\<close> and rejects only \<^verbatim>\<open>NaN\<close>, so \<^verbatim>\<open>true\<close> becomes the number 1.
\<close>

theorem boolean_to_number_counterexample:
  "parseLiteralExpression samplePrims (JBool True) NumberType
     = Inr (LiteralExpression NumberType (JNum (Finite 1)))"
  by (simp add: parseLiteralExpression_def Type_defs)

text \<open>
  C3, amended. Coercing a boolean to the type number succeeds: \<^verbatim>\<open>true\<close> gives the
  literal 1 and \<^verbatim>\<open>false\<close> the literal 0.
\<close>

theorem boolean_to_number:
  "parseLiteralExpression P (JBool b) NumberType
     = Inr (LiteralExpression NumberType (JNum (Finite (if b then 1 else 0))))"
  by (simp add: parseLiteralExpression_def Type_defs)

theorem boolean_to_number_witness:
  "parseLiteralExpression samplePrims (JBool False) NumberType
     = Inr (LiteralExpression NumberType (JNum (Finite 0)))"
  using boolean_to_number [of samplePrims False] by simp

text \<open>
  C4. \<^verbatim>\<open>parse(null, 'number', newParsingContext())\<close> does not throw: \<open>parse\<close> hands
  every value that is not an array to the literal coercion, and \<^verbatim>\<open>Number(null)\<close> is 0.
\<close>

theorem parse_null_number:
  "parse samplePrims JNull NumberType newParsingContext
     = (Inr (LiteralExpression NumberType (JNum (Finite 0))), newParsingContext)"
  by (simp add: parse.simps parseLiteralExpression_def Type_defs)

section \<open>Operators of the table\<close>




text \<open>
  C7. For every needle, expected type and context, and every haystack that is an array
  whose first item is a string other than \<^verbatim>\<open>literal\<close>, parsing
  \<^verbatim>\<open>['in', needle, haystack]\<close> fails with the message that asks for the
  \<^verbatim>\<open>literal\<close> wrapper; nothing has been parsed by then, so the context is unchanged.
\<close>

theorem in_bare_string_array:
  assumes "s \<noteq> ''literal''"
  shows \<open>parse P (JArr [JStr ''in'', needle, JArr (JStr s # rest)]) T ctx =
    (Inl (Error ''for the "in" operator, a string array should be wrapped in a "literal" operator to disambiguate from expressions''), ctx)\<close>
  using assms
  by (simp add: parse.simps parseCallExpression_def parsers_def createCallExpressionParser_def
      hasArgsCount_def withInArgs_def andThen_def elemAt_def Let_def)

theorem in_bare_string_array_witness:
  \<open>''abcd'' \<noteq> ''literal'' \<and>
   parse samplePrims
     (JArr [JStr ''in'', JArr [JStr ''get'', JStr ''attr''],
            JArr (JStr ''abcd'' # [JStr ''efgh'', JStr ''ijkl''])])
     BooleanType newParsingContext =
    (Inl (Error ''for the "in" operator, a string array should be wrapped in a "literal" operator to disambiguate from expressions''), newParsingContext)\<close>
proof -
  have h: "''abcd'' \<noteq> ''literal''" by simp
  show ?thesis by (rule conjI [OF h in_bare_string_array [OF h]])
qed


section \<open>What a parse does to the context\<close>

lemma extends_refl [simp]: "extends c c"
  by (simp add: extends_def)


lemma step_refl [simp]: "step c [] c"
  by (simp add: step_def)















lemma step_Literal [simp]: "step c (LiteralExpression t v # es) c' = step c es c'"
  by (simp add: step_def)











subsection \<open>Accessors, checks and the table\<close>
































section \<open>Registering accessors\<close>





subsection \<open>The key tells faithful tuples apart\<close>







































section \<open>The accessor processor computes the entries\<close>











section \<open>Clamping of the interpolation\<close>





end
